theory Spec2Isabelle
  imports Main "HOL-Library.Sublist"
begin

section \<open>Service Management API client wrapper (servicemanagement.py)\<close>

text \<open>
  The module wraps five read operations of the Service Management API. Each public
  operation makes one call on the services sub-repository, flattens paged results, and
  translates \<open>HttpError\<close> and \<open>HttpLib2Error\<close> into \<open>ApiExecutionError\<close>.

  Python values are modelled as follows: a \<open>str\<close> is a \<open>string\<close>; a dynamically typed
  argument that the code tests for truthiness is a \<open>pyval\<close>; a \<open>dict\<close> is an association
  list in insertion order; a raised exception is the \<open>Inl\<close> branch of a sum; calls on the
  external collaborators are appended to an explicit call log that every operation takes
  and returns. Calls on \<open>LOGGER\<close> have no influence on results and are left out.

  The operations take the services sub-repository that \<open>self.repository.services\<close>
  returns. \<open>ServiceManagementClient.__init__\<close> and the memoisation of the \<open>services\<close>
  property only build that object and are not modelled.
\<close>

subsection \<open>Python values and dictionaries\<close>

datatype pyval = PyNone | PyStr string | PyInt int | PyBool bool

text \<open>Python truthiness, as used by \<open>if x:\<close> and \<open>not x\<close>.\<close>

fun truthy :: "pyval \<Rightarrow> bool" where
  "truthy PyNone = False"
| "truthy (PyStr s) = (s \<noteq> [])"
| "truthy (PyInt n) = (n \<noteq> 0)"
| "truthy (PyBool b) = b"

type_synonym 'v pydict = "(string \<times> 'v) list"

text \<open>\<open>d[k] = v\<close>: an existing key keeps its position, a new key is appended.\<close>

fun dict_set :: "'v pydict \<Rightarrow> string \<Rightarrow> 'v \<Rightarrow> 'v pydict" where
  "dict_set [] k v = [(k, v)]"
| "dict_set ((k', v') # d) k v =
     (if k' = k then (k, v) # d else (k', v') # dict_set d k v)"

text \<open>\<open>d.get(k, default)\<close>.\<close>

definition dict_get :: "'v pydict \<Rightarrow> string \<Rightarrow> 'v \<Rightarrow> 'v" where
  "dict_get d k dflt = (case map_of d k of None \<Rightarrow> dflt | Some v \<Rightarrow> v)"

subsection \<open>Module constants\<close>

definition API_NAME :: string where
  "API_NAME = ''servicemanagement''"

definition DEFAULT_MAX_RESULTS :: int where
  "DEFAULT_MAX_RESULTS = 100"

subsection \<open>Exceptions\<close>

text \<open>
  What a collaborator (the base repository, the mixins, the transport below them) can
  raise. \<open>HttpError\<close> stands for \<open>googleapiclient.errors.HttpError\<close> and its subclasses,
  \<open>HttpLib2Error\<close> for \<open>httplib2.HttpLib2Error\<close> and its subclasses, \<open>OtherException\<close> for
  an exception of any other class. The string is the exception's payload. The domain
  error is not among them: the module constructs it only in the \<open>except\<close> clauses of the
  client.
\<close>

datatype transport_error =
    HttpError string
  | HttpLib2Error string
  | OtherException string

text \<open>The classes named by \<open>except (errors.HttpError, HttpLib2Error) as e\<close>.\<close>

fun caught :: "transport_error \<Rightarrow> bool" where
  "caught (HttpError m) = True"
| "caught (HttpLib2Error m) = True"
| "caught (OtherException m) = False"

text \<open>
  Modelled from the spec: \<open>api_errors.ApiExecutionError\<close> is not in the module. The spec
  gives its constructor as \<open>makeApiError(contextLabel, cause, [tagKey, tagValue])\<close>, an
  error "carrying an optional context label and an optional key/value tag". An exception
  that leaves an operation is either that domain error or an exception of the collaborator
  that no \<open>except\<close> clause matched.
\<close>

datatype raised =
    ApiExecutionError string transport_error "(string \<times> string) option"
  | Uncaught transport_error

subsection \<open>The collaborators of the services sub-repository\<close>

text \<open>
  A lazy page sequence (a Python generator): it yields a page, stops, or raises.
\<close>

datatype ('e, 'p) generator =
    Stop
  | Yield 'p "('e, 'p) generator"
  | Raise 'e

text \<open>A page document: a dict from a key such as \<open>services\<close> to a list of items.\<close>

type_synonym 'i page = "('i list) pydict"

text \<open>
  Modelled from the spec: the base repository and the list / get-IAM-policy mixins are
  not in the module. The spec gives them as \<open>list(filters, maxResults) \<rightarrow>\<close> lazy page
  sequence, \<open>getIamPolicy(resourceName) \<rightarrow>\<close> policy document and
  \<open>executeQuery(verb, verbArguments) \<rightarrow>\<close> response. They are parameters here: any
  behaviour of the three, failing or not, is covered.
\<close>

record ('i, 'd) base_repository =
  list_query :: "pyval pydict \<Rightarrow> (transport_error, 'i page) generator"
  get_iam_policy_query :: "string \<Rightarrow> transport_error + 'd"
  execute_query_raw :: "string \<Rightarrow> pyval pydict \<Rightarrow> transport_error + 'd"

text \<open>The calls an operation makes on the collaborators, in order.\<close>

datatype call =
    List_call "pyval pydict"
  | Get_iam_policy_call string
  | Execute_query_call string "pyval pydict"

text \<open>
  Modelled from the spec: \<open>api_helpers.flatten_list_results\<close> is not in the module. The
  spec's flattening contract: one ordered sequence of all items across pages, preserving
  page and in-page order; an absent key in a page contributes zero items; a failure on any
  page aborts with that failure and the items collected so far are discarded.
\<close>

fun flatten_loop ::
  "('e, 'i page) generator \<Rightarrow> string \<Rightarrow> 'i list \<Rightarrow> 'e + 'i list" where
  "flatten_loop Stop item_key results = Inr results"
| "flatten_loop (Yield pg rest) item_key results =
     flatten_loop rest item_key (results @ dict_get pg item_key [])"
| "flatten_loop (Raise e) item_key results = Inl e"

definition flatten_list_results ::
  "('e, 'i page) generator \<Rightarrow> string \<Rightarrow> 'e + 'i list" where
  "flatten_list_results paged_results item_key = flatten_loop paged_results item_key []"

subsection \<open>ServiceManagementRepositoryClient\<close>

text \<open>
  The keyword arguments that \<open>__init__\<close> hands to the base class constructor. The quota
  period (a float) and the discovery cache are passed through untouched and are left
  polymorphic.
\<close>

record ('p, 'c) base_init_args =
  api_name :: string
  versions :: "string list"
  quota_max_calls :: pyval
  quota_period :: 'p
  use_rate_limiter :: bool
  cache_discovery :: bool
  cache :: 'c

definition ServiceManagementRepositoryClient_init ::
  "pyval \<Rightarrow> 'p \<Rightarrow> bool \<Rightarrow> bool \<Rightarrow> 'c \<Rightarrow> ('p, 'c) base_init_args" where
  "ServiceManagementRepositoryClient_init quota_max_calls' quota_period' use_rate_limiter'
       cache_discovery' cache' =
     (let use_rate_limiter'' =
            (if \<not> truthy quota_max_calls' then False else use_rate_limiter')
      in \<lparr> api_name = API_NAME, versions = [''v1''],
           quota_max_calls = quota_max_calls',
           quota_period = quota_period',
           use_rate_limiter = use_rate_limiter'',
           cache_discovery = cache_discovery',
           cache = cache' \<rparr>)"

subsection \<open>The services sub-repository\<close>

text \<open>
  \<open>_ServiceManagementServicesRepository\<close>: the fields its constructor passes to
  \<open>GCPRepository.__init__\<close>, and the inherited capabilities.
  Modelled from the spec: the base class, which is not in the module, stores the key
  field that \<open>get_config\<close> reads back as \<open>self._get_key_field\<close>; the spec binds the
  sub-repository "to resource key field \<open>serviceName\<close>".
\<close>

record ('i, 'd) services_repository =
  component :: string
  max_results_field :: string
  key_field :: string
  get_key_field :: string
  base :: "('i, 'd) base_repository"

definition ServiceManagementServicesRepository_init ::
  "('i, 'd) base_repository \<Rightarrow> ('i, 'd) services_repository" where
  "ServiceManagementServicesRepository_init kwargs =
     \<lparr> component = ''services'', max_results_field = ''pageSize'',
       key_field = ''serviceName'', get_key_field = ''serviceName'',
       base = kwargs \<rparr>"

definition get_formatted_project_name :: "string \<Rightarrow> string" where
  "get_formatted_project_name project_id =
     (if \<not> prefix ''project:'' project_id then ''project:'' @ project_id
      else project_id)"

definition get_formatted_service_name :: "string \<Rightarrow> string" where
  "get_formatted_service_name service_name =
     (if \<not> prefix ''services/'' service_name then ''services/'' @ service_name
      else service_name)"

text \<open>The three calls on the collaborators, each recorded in the call log.\<close>

definition services_list ::
  "('i, 'd) services_repository \<Rightarrow> pyval pydict \<Rightarrow> call list \<Rightarrow>
     (transport_error, 'i page) generator \<times> call list" where
  "services_list self kwargs log =
     (list_query (base self) kwargs, log @ [List_call kwargs])"

definition get_iam_policy ::
  "('i, 'd) services_repository \<Rightarrow> string \<Rightarrow> call list \<Rightarrow>
     (transport_error + 'd) \<times> call list" where
  "get_iam_policy self resource log =
     (get_iam_policy_query (base self) resource, log @ [Get_iam_policy_call resource])"

definition execute_query ::
  "('i, 'd) services_repository \<Rightarrow> string \<Rightarrow> pyval pydict \<Rightarrow> call list \<Rightarrow>
     (transport_error + 'd) \<times> call list" where
  "execute_query self verb verb_arguments log =
     (execute_query_raw (base self) verb verb_arguments,
      log @ [Execute_query_call verb verb_arguments])"

definition get_config ::
  "('i, 'd) services_repository \<Rightarrow> string \<Rightarrow> pyval \<Rightarrow> pyval \<Rightarrow> string \<Rightarrow> call list \<Rightarrow>
     (transport_error + 'd) \<times> call list" where
  "get_config self resource config_id view verb log =
     (let arguments = [(get_key_field self, PyStr resource)];
          arguments = (if truthy config_id then dict_set arguments ''configId'' config_id
                       else arguments);
          arguments = (if truthy view then dict_set arguments ''view'' view
                       else arguments)
      in execute_query self verb arguments log)"

subsection \<open>ServiceManagementClient\<close>

text \<open>
  The five public operations. \<open>services\<close> is \<open>self.repository.services\<close>. The body of each
  \<open>try\<close> is the \<open>Inr\<close> branch; the \<open>except\<close> clause wraps an exception it matches and lets
  any other through.
\<close>

definition get_all_apis ::
  "('i, 'd) services_repository \<Rightarrow> call list \<Rightarrow> (raised + 'i list) \<times> call list" where
  "get_all_apis services log =
     (let (paged_results, log') =
            services_list services [(''max_results'', PyInt DEFAULT_MAX_RESULTS)] log
      in (case flatten_list_results paged_results ''services'' of
            Inl e \<Rightarrow>
              (if caught e then Inl (ApiExecutionError '''' e None) else Inl (Uncaught e))
          | Inr flattened_results \<Rightarrow> Inr flattened_results,
          log'))"

definition get_produced_apis ::
  "('i, 'd) services_repository \<Rightarrow> string \<Rightarrow> call list \<Rightarrow>
     (raised + 'i list) \<times> call list" where
  "get_produced_apis services project_id log =
     (let (paged_results, log') =
            services_list services
              [(''producerProjectId'', PyStr project_id),
               (''max_results'', PyInt DEFAULT_MAX_RESULTS)] log
      in (case flatten_list_results paged_results ''services'' of
            Inl e \<Rightarrow>
              (if caught e
               then Inl (ApiExecutionError ''name'' e (Some (''project_id'', project_id)))
               else Inl (Uncaught e))
          | Inr flattened_results \<Rightarrow> Inr flattened_results,
          log'))"

definition get_enabled_apis ::
  "('i, 'd) services_repository \<Rightarrow> string \<Rightarrow> call list \<Rightarrow>
     (raised + 'i list) \<times> call list" where
  "get_enabled_apis services project_id log =
     (let formatted_project_id = get_formatted_project_name project_id;
          (paged_results, log') =
            services_list services
              [(''consumerId'', PyStr formatted_project_id),
               (''max_results'', PyInt DEFAULT_MAX_RESULTS)] log
      in (case flatten_list_results paged_results ''services'' of
            Inl e \<Rightarrow>
              (if caught e
               then Inl (ApiExecutionError ''name'' e (Some (''project_id'', project_id)))
               else Inl (Uncaught e))
          | Inr flattened_results \<Rightarrow> Inr flattened_results,
          log'))"

definition get_api_iam_policy ::
  "('i, 'd) services_repository \<Rightarrow> string \<Rightarrow> call list \<Rightarrow> (raised + 'd) \<times> call list" where
  "get_api_iam_policy services service_name log =
     (let name = get_formatted_service_name service_name;
          (outcome, log') = get_iam_policy services name log
      in (case outcome of
            Inl e \<Rightarrow>
              (if caught e
               then Inl (ApiExecutionError ''serviceIamPolicy'' e
                           (Some (''serviceName'', service_name)))
               else Inl (Uncaught e))
          | Inr result \<Rightarrow> Inr result,
          log'))"

definition get_full_api_configuration ::
  "('i, 'd) services_repository \<Rightarrow> string \<Rightarrow> call list \<Rightarrow> (raised + 'd) \<times> call list" where
  "get_full_api_configuration services service_name log =
     (let (outcome, log') = get_config services service_name PyNone PyNone ''getConfig'' log
      in (case outcome of
            Inl e \<Rightarrow>
              (if caught e
               then Inl (ApiExecutionError ''serviceConfig'' e
                           (Some (''serviceName'', service_name)))
               else Inl (Uncaught e))
          | Inr result \<Rightarrow> Inr result,
          log'))"

subsection \<open>The five operations as one interface\<close>

text \<open>
  The produced interface of the client: one constructor per public method, with the
  argument the caller passes. \<open>perform\<close> runs the method an operation names.
\<close>

datatype operation =
    GetAllApis
  | GetProducedApis string
  | GetEnabledApis string
  | GetApiIamPolicy string
  | GetFullApiConfiguration string

datatype ('i, 'd) returned = Services "'i list" | Document 'd

definition perform ::
  "('i, 'd) services_repository \<Rightarrow> operation \<Rightarrow> call list \<Rightarrow>
     (raised + ('i, 'd) returned) \<times> call list" where
  "perform services op log =
     (case op of
        GetAllApis \<Rightarrow> map_prod (map_sum id Services) id (get_all_apis services log)
      | GetProducedApis project_id \<Rightarrow>
          map_prod (map_sum id Services) id (get_produced_apis services project_id log)
      | GetEnabledApis project_id \<Rightarrow>
          map_prod (map_sum id Services) id (get_enabled_apis services project_id log)
      | GetApiIamPolicy service_name \<Rightarrow>
          map_prod (map_sum id Document) id (get_api_iam_policy services service_name log)
      | GetFullApiConfiguration service_name \<Rightarrow>
          map_prod (map_sum id Document) id
            (get_full_api_configuration services service_name log))"

fun operation_name :: "operation \<Rightarrow> string" where
  "operation_name GetAllApis = ''get_all_apis''"
| "operation_name (GetProducedApis project_id) = ''get_produced_apis''"
| "operation_name (GetEnabledApis project_id) = ''get_enabled_apis''"
| "operation_name (GetApiIamPolicy service_name) = ''get_api_iam_policy''"
| "operation_name (GetFullApiConfiguration service_name) = ''get_full_api_configuration''"

subsection \<open>Notions of the specification\<close>

text \<open>
  The exception a page sequence raises when it is consumed to its end, if any, and the
  pages it yields before it stops or raises.
\<close>

fun first_failure :: "('e, 'p) generator \<Rightarrow> 'e option" where
  "first_failure Stop = None"
| "first_failure (Yield pg rest) = first_failure rest"
| "first_failure (Raise e) = Some e"

fun pages_of :: "('e, 'p) generator \<Rightarrow> 'p list" where
  "pages_of Stop = []"
| "pages_of (Yield pg rest) = pg # pages_of rest"
| "pages_of (Raise e) = []"

text \<open>
  The failure of the underlying transport call: what the collaborators raise for a call
  of the log (\<open>None\<close> when the call succeeds).
\<close>

definition transport_failure ::
  "('i, 'd) base_repository \<Rightarrow> call \<Rightarrow> transport_error option" where
  "transport_failure b c =
     (case c of
        List_call kwargs \<Rightarrow> first_failure (list_query b kwargs)
      | Get_iam_policy_call resource \<Rightarrow>
          (case get_iam_policy_query b resource of Inl e \<Rightarrow> Some e | Inr d \<Rightarrow> None)
      | Execute_query_call verb arguments \<Rightarrow>
          (case execute_query_raw b verb arguments of Inl e \<Rightarrow> Some e | Inr d \<Rightarrow> None))"

text \<open>
  The spec's table of section 4.3, column "On failure": the input identifier that tags
  the domain error, as the caller passed it.
\<close>

fun spec_context_tag :: "operation \<Rightarrow> (string \<times> string) option" where
  "spec_context_tag GetAllApis = None"
| "spec_context_tag (GetProducedApis project_id) = Some (''project_id'', project_id)"
| "spec_context_tag (GetEnabledApis project_id) = Some (''project_id'', project_id)"
| "spec_context_tag (GetApiIamPolicy service_name) = Some (''serviceName'', service_name)"
| "spec_context_tag (GetFullApiConfiguration service_name) =
     Some (''serviceName'', service_name)"

text \<open>
  The spec's words for \<open>getConfig\<close>: arguments \<open>{serviceName: resource}\<close> plus \<open>configId\<close>
  and \<open>view\<close> if supplied, where an argument left out is Python's \<open>None\<close> default.
\<close>

definition spec_get_config_arguments :: "string \<Rightarrow> pyval \<Rightarrow> pyval \<Rightarrow> pyval pydict" where
  "spec_get_config_arguments resource config_id view =
     [(''serviceName'', PyStr resource)]
     @ (if config_id \<noteq> PyNone then [(''configId'', config_id)] else [])
     @ (if view \<noteq> PyNone then [(''view'', view)] else [])"

subsection \<open>Two concrete collaborators\<close>

text \<open>
  A collaborator whose calls all succeed (the list call yields three pages, the second
  without a \<open>services\<close> key), and one whose calls all fail: the list call after one
  page with an HTTP error, the policy call with a low-level transport error, the query
  call with an exception of another class.
\<close>

definition working_base :: "(string, string) base_repository" where
  "working_base =
     \<lparr> list_query = (\<lambda>kwargs.
         Yield [(''services'', [''a'', ''b''])]
           (Yield [] (Yield [(''services'', [''c''])] Stop))),
       get_iam_policy_query = (\<lambda>resource. Inr (''policy of '' @ resource)),
       execute_query_raw = (\<lambda>verb arguments. Inr ''document'') \<rparr>"

definition failing_base :: "(string, string) base_repository" where
  "failing_base =
     \<lparr> list_query = (\<lambda>kwargs.
         Yield [(''services'', [''a''])] (Raise (HttpError ''503''))),
       get_iam_policy_query = (\<lambda>resource. Inl (HttpLib2Error ''timed out'')),
       execute_query_raw = (\<lambda>verb arguments. Inl (OtherException ''KeyError'')) \<rparr>"

section \<open>Flattening of paged results\<close>

text \<open>
  The loop of \<open>flatten_list_results\<close> in closed form: it fails with the first exception
  the page sequence raises, and otherwise returns the items of all pages in order.
\<close>

lemma flatten_loop_eq:
  "flatten_loop g k acc =
     (case first_failure g of
        Some e \<Rightarrow> Inl e
      | None \<Rightarrow> Inr (acc @ concat (map (\<lambda>pg. dict_get pg k []) (pages_of g))))"
  by (induction g arbitrary: acc) (simp_all split: option.splits)

lemma flatten_list_results_eq:
  "flatten_list_results g k =
     (case first_failure g of
        Some e \<Rightarrow> Inl e
      | None \<Rightarrow> Inr (concat (map (\<lambda>pg. dict_get pg k []) (pages_of g))))"
  by (simp add: flatten_list_results_def flatten_loop_eq split: option.splits)

section \<open>Translation of transport failures\<close>

text \<open>
  Claim C1. Each of the five public operations makes exactly one call on the
  collaborators (nothing is retried). It raises \<open>ApiExecutionError\<close> if and only if that
  call fails with an \<open>HttpError\<close> or an \<open>HttpLib2Error\<close>; the raised error carries that
  failure as its cause and, where the operation has an argument, the tag with the
  identifier exactly as the caller passed it (not its formatted form). A failure of any
  other class leaves the operation untranslated, and a call that succeeds raises nothing.
\<close>

theorem api_execution_error_iff_transport_failure:
  "\<exists>c. snd (perform s op log) = log @ [c] \<and>
     ((\<exists>l e g. fst (perform s op log) = Inl (ApiExecutionError l e g)) \<longleftrightarrow>
        (\<exists>e. transport_failure (base s) c = Some e \<and> caught e)) \<and>
     (\<forall>l e g. fst (perform s op log) = Inl (ApiExecutionError l e g) \<longrightarrow>
        transport_failure (base s) c = Some e \<and> g = spec_context_tag op) \<and>
     (\<forall>e. transport_failure (base s) c = Some e \<and> \<not> caught e \<longrightarrow>
        fst (perform s op log) = Inl (Uncaught e)) \<and>
     (transport_failure (base s) c = None \<longrightarrow> (\<exists>v. fst (perform s op log) = Inr v))"
proof (cases op)
  case GetAllApis
  show ?thesis
    unfolding GetAllApis
    by (auto simp: Let_def perform_def get_all_apis_def services_list_def
        transport_failure_def flatten_list_results_eq split: option.splits)
next
  case (GetProducedApis p)
  show ?thesis
    unfolding GetProducedApis
    by (auto simp: Let_def perform_def get_produced_apis_def services_list_def
        transport_failure_def flatten_list_results_eq split: option.splits)
next
  case (GetEnabledApis p)
  show ?thesis
    unfolding GetEnabledApis
    by (auto simp: Let_def perform_def get_enabled_apis_def services_list_def
        transport_failure_def flatten_list_results_eq split: option.splits)
next
  case (GetApiIamPolicy n)
  show ?thesis
    unfolding GetApiIamPolicy
    by (auto simp: Let_def perform_def get_api_iam_policy_def get_iam_policy_def
        transport_failure_def split: sum.splits)
next
  case (GetFullApiConfiguration n)
  show ?thesis
    unfolding GetFullApiConfiguration
    by (auto simp: Let_def perform_def get_full_api_configuration_def get_config_def
        execute_query_def transport_failure_def split: sum.splits)
qed

theorem api_execution_error_iff_transport_failure_witness:
  "snd (perform (ServiceManagementServicesRepository_init failing_base)
          (GetEnabledApis ''p1'') []) =
     [List_call [(''consumerId'', PyStr ''project:p1''), (''max_results'', PyInt 100)]] \<and>
   transport_failure failing_base
     (List_call [(''consumerId'', PyStr ''project:p1''), (''max_results'', PyInt 100)]) =
     Some (HttpError ''503'') \<and>
   caught (HttpError ''503'') \<and>
   fst (perform (ServiceManagementServicesRepository_init failing_base)
          (GetEnabledApis ''p1'') []) =
     Inl (ApiExecutionError ''name'' (HttpError ''503'') (Some (''project_id'', ''p1''))) \<and>
   transport_failure failing_base
     (Execute_query_call ''getConfig'' [(''serviceName'', PyStr ''svcA'')]) =
     Some (OtherException ''KeyError'') \<and>
   \<not> caught (OtherException ''KeyError'') \<and>
   fst (perform (ServiceManagementServicesRepository_init failing_base)
          (GetFullApiConfiguration ''svcA'') []) =
     Inl (Uncaught (OtherException ''KeyError'')) \<and>
   transport_failure working_base (List_call [(''max_results'', PyInt 100)]) = None \<and>
   fst (perform (ServiceManagementServicesRepository_init working_base) GetAllApis []) =
     Inr (Services [''a'', ''b'', ''c''])"
  using api_execution_error_iff_transport_failure
          [of "ServiceManagementServicesRepository_init failing_base"
              "GetEnabledApis ''p1''" "[]"]
        api_execution_error_iff_transport_failure
          [of "ServiceManagementServicesRepository_init failing_base"
              "GetFullApiConfiguration ''svcA''" "[]"]
        api_execution_error_iff_transport_failure
          [of "ServiceManagementServicesRepository_init working_base" GetAllApis "[]"]
  by (simp add: Let_def perform_def get_enabled_apis_def get_all_apis_def
      get_full_api_configuration_def get_config_def execute_query_def services_list_def
      ServiceManagementServicesRepository_init_def failing_base_def working_base_def
      transport_failure_def get_formatted_project_name_def flatten_list_results_def
      dict_get_def DEFAULT_MAX_RESULTS_def)

text \<open>
  Claim C8, as stated, fails: the label of the raised error does not tell
  \<open>get_produced_apis\<close> from \<open>get_enabled_apis\<close>. Both pass the label \<open>name\<close>, and for the
  same project and the same failure the two raised errors are equal.
\<close>

theorem error_label_shared_counterexample:
  "fst (perform (ServiceManagementServicesRepository_init failing_base)
          (GetProducedApis ''p1'') []) =
     Inl (ApiExecutionError ''name'' (HttpError ''503'') (Some (''project_id'', ''p1''))) \<and>
   fst (perform (ServiceManagementServicesRepository_init failing_base)
          (GetEnabledApis ''p1'') []) =
     Inl (ApiExecutionError ''name'' (HttpError ''503'') (Some (''project_id'', ''p1''))) \<and>
   operation_name (GetProducedApis ''p1'') \<noteq> operation_name (GetEnabledApis ''p1'')"
  by (simp add: Let_def perform_def get_produced_apis_def get_enabled_apis_def
      services_list_def flatten_list_results_def failing_base_def ServiceManagementServicesRepository_init_def)

text \<open>The label each operation passes to \<open>ApiExecutionError\<close>.\<close>

lemma raised_label:
  assumes "fst (perform s op log) = Inl (ApiExecutionError l e g)"
  shows "l = (case op of
                GetAllApis \<Rightarrow> []
              | GetProducedApis project_id \<Rightarrow> ''name''
              | GetEnabledApis project_id \<Rightarrow> ''name''
              | GetApiIamPolicy service_name \<Rightarrow> ''serviceIamPolicy''
              | GetFullApiConfiguration service_name \<Rightarrow> ''serviceConfig'')"
  using assms
  by (cases op)
     (auto simp: Let_def perform_def get_all_apis_def get_produced_apis_def
        get_enabled_apis_def get_api_iam_policy_def get_full_api_configuration_def
        services_list_def get_iam_policy_def get_config_def execute_query_def
        split: sum.splits if_splits)

text \<open>
  Claim C8, amended. The label of a raised domain error is fixed by the operation: the
  empty string for \<open>get_all_apis\<close>, \<open>name\<close> for \<open>get_produced_apis\<close> and for
  \<open>get_enabled_apis\<close>, \<open>serviceIamPolicy\<close> for \<open>get_api_iam_policy\<close>, \<open>serviceConfig\<close> for
  \<open>get_full_api_configuration\<close>. Two raised errors with the same label come from the
  same operation, or from \<open>get_produced_apis\<close> and \<open>get_enabled_apis\<close>.
\<close>

theorem error_label_of_operation:
  assumes "fst (perform s1 op1 log1) = Inl (ApiExecutionError l1 e1 g1)"
      and "fst (perform s2 op2 log2) = Inl (ApiExecutionError l2 e2 g2)"
  shows "l1 = (case op1 of
                 GetAllApis \<Rightarrow> []
               | GetProducedApis project_id \<Rightarrow> ''name''
               | GetEnabledApis project_id \<Rightarrow> ''name''
               | GetApiIamPolicy service_name \<Rightarrow> ''serviceIamPolicy''
               | GetFullApiConfiguration service_name \<Rightarrow> ''serviceConfig'') \<and>
         (l1 = l2 \<longrightarrow>
            operation_name op1 = operation_name op2 \<or>
            {operation_name op1, operation_name op2} =
              {''get_produced_apis'', ''get_enabled_apis''})"
  using raised_label [OF assms(1)] raised_label [OF assms(2)]
  by (cases op1; cases op2) auto

theorem error_label_of_operation_witness:
  "fst (perform (ServiceManagementServicesRepository_init failing_base)
          (GetApiIamPolicy ''svcA'') []) =
     Inl (ApiExecutionError ''serviceIamPolicy'' (HttpLib2Error ''timed out'')
            (Some (''serviceName'', ''svcA''))) \<and>
   fst (perform (ServiceManagementServicesRepository_init failing_base)
          (GetApiIamPolicy ''svcB'') []) =
     Inl (ApiExecutionError ''serviceIamPolicy'' (HttpLib2Error ''timed out'')
            (Some (''serviceName'', ''svcB''))) \<and>
   operation_name (GetApiIamPolicy ''svcA'') = operation_name (GetApiIamPolicy ''svcB'')"
proof -
  have a: "fst (perform (ServiceManagementServicesRepository_init failing_base)
          (GetApiIamPolicy ''svcA'') []) =
     Inl (ApiExecutionError ''serviceIamPolicy'' (HttpLib2Error ''timed out'')
            (Some (''serviceName'', ''svcA'')))"
    by (simp add: Let_def perform_def get_api_iam_policy_def get_iam_policy_def
        failing_base_def ServiceManagementServicesRepository_init_def)
  have b: "fst (perform (ServiceManagementServicesRepository_init failing_base)
          (GetApiIamPolicy ''svcB'') []) =
     Inl (ApiExecutionError ''serviceIamPolicy'' (HttpLib2Error ''timed out'')
            (Some (''serviceName'', ''svcB'')))"
    by (simp add: Let_def perform_def get_api_iam_policy_def get_iam_policy_def
        failing_base_def ServiceManagementServicesRepository_init_def)
  from error_label_of_operation [OF a b] a b show ?thesis
    by simp
qed

section \<open>Dispatch of the list and policy operations\<close>

text \<open>
  Claim C2. For every string \<open>p1\<close>, \<open>get_enabled_apis\<close> dispatches one list call whose
  keyword arguments are \<open>consumerId\<close>, set to the formatted project name, and
  \<open>max_results\<close>, set to 100. The dispatched name always starts with \<open>project:\<close>; for an
  unprefixed \<open>p1\<close> it is \<open>project:\<close> followed by \<open>p1\<close>, and so differs from the raw \<open>p1\<close>.
\<close>

theorem get_enabled_apis_dispatch:
  "snd (get_enabled_apis s p1 log) =
     log @ [List_call [(''consumerId'', PyStr (get_formatted_project_name p1)),
                       (''max_results'', PyInt 100)]] \<and>
   prefix ''project:'' (get_formatted_project_name p1) \<and>
   (\<not> prefix ''project:'' p1 \<longrightarrow>
      get_formatted_project_name p1 = ''project:'' @ p1 \<and>
      get_formatted_project_name p1 \<noteq> p1)"
  by (simp add: Let_def get_enabled_apis_def services_list_def DEFAULT_MAX_RESULTS_def
      get_formatted_project_name_def)

theorem get_enabled_apis_dispatch_witness:
  "snd (get_enabled_apis (ServiceManagementServicesRepository_init working_base) ''p1'' []) =
     [List_call [(''consumerId'', PyStr ''project:p1''), (''max_results'', PyInt 100)]] \<and>
   \<not> prefix ''project:'' ''p1'' \<and>
   get_formatted_project_name ''p1'' = ''project:p1'' \<and>
   get_formatted_project_name ''p1'' \<noteq> ''p1''"
  using get_enabled_apis_dispatch
          [of "ServiceManagementServicesRepository_init working_base" "''p1''" "[]"]
  by (simp add: Let_def get_enabled_apis_def services_list_def DEFAULT_MAX_RESULTS_def
      get_formatted_project_name_def)

text \<open>
  Claim C3. For every string, \<open>get_api_iam_policy\<close> dispatches one policy call with the
  formatted service name, which always starts with \<open>services/\<close> and differs from an
  unprefixed raw name; when the sub-repository returns a policy document, the operation
  returns that document unchanged.
\<close>

theorem get_api_iam_policy_dispatch:
  "snd (get_api_iam_policy s name log) =
     log @ [Get_iam_policy_call (get_formatted_service_name name)] \<and>
   prefix ''services/'' (get_formatted_service_name name) \<and>
   (\<not> prefix ''services/'' name \<longrightarrow>
      get_formatted_service_name name = ''services/'' @ name \<and>
      get_formatted_service_name name \<noteq> name) \<and>
   (\<forall>policy. get_iam_policy_query (base s) (get_formatted_service_name name) = Inr policy \<longrightarrow>
      fst (get_api_iam_policy s name log) = Inr policy)"
  by (simp add: Let_def get_api_iam_policy_def get_iam_policy_def
      get_formatted_service_name_def)

theorem get_api_iam_policy_dispatch_witness:
  "snd (get_api_iam_policy (ServiceManagementServicesRepository_init working_base)
          ''svcA'' []) =
     [Get_iam_policy_call ''services/svcA''] \<and>
   \<not> prefix ''services/'' ''svcA'' \<and>
   get_formatted_service_name ''svcA'' \<noteq> ''svcA'' \<and>
   get_iam_policy_query working_base ''services/svcA'' = Inr ''policy of services/svcA'' \<and>
   fst (get_api_iam_policy (ServiceManagementServicesRepository_init working_base)
          ''svcA'' []) =
     Inr ''policy of services/svcA''"
  using get_api_iam_policy_dispatch
          [of "ServiceManagementServicesRepository_init working_base" "''svcA''" "[]"]
  by (simp add: Let_def get_api_iam_policy_def get_iam_policy_def
      get_formatted_service_name_def working_base_def
      ServiceManagementServicesRepository_init_def)

text \<open>
  Claim C4. \<open>get_all_apis\<close> issues exactly one list call, with no \<open>producerProjectId\<close>, no
  \<open>consumerId\<close> and \<open>max_results\<close> equal to 100. When no page fails it returns the items
  under \<open>services\<close> of all pages, in order; when the call fails with an \<open>HttpError\<close> or an
  \<open>HttpLib2Error\<close> it raises the domain error with the empty label and no tag.
\<close>

theorem get_all_apis_spec:
  "\<exists>kwargs.
     snd (get_all_apis s log) = log @ [List_call kwargs] \<and>
     map_of kwargs ''producerProjectId'' = None \<and>
     map_of kwargs ''consumerId'' = None \<and>
     map_of kwargs ''max_results'' = Some (PyInt 100) \<and>
     (first_failure (list_query (base s) kwargs) = None \<longrightarrow>
        fst (get_all_apis s log) =
          Inr (concat (map (\<lambda>pg. dict_get pg ''services'' [])
                 (pages_of (list_query (base s) kwargs))))) \<and>
     (\<forall>e. first_failure (list_query (base s) kwargs) = Some e \<and> caught e \<longrightarrow>
        fst (get_all_apis s log) = Inl (ApiExecutionError '''' e None))"
  by (auto simp: Let_def get_all_apis_def services_list_def DEFAULT_MAX_RESULTS_def
      flatten_list_results_eq)

theorem get_all_apis_spec_witness:
  "snd (get_all_apis (ServiceManagementServicesRepository_init working_base) []) =
     [List_call [(''max_results'', PyInt 100)]] \<and>
   first_failure (list_query working_base [(''max_results'', PyInt 100)]) = None \<and>
   fst (get_all_apis (ServiceManagementServicesRepository_init working_base) []) =
     Inr [''a'', ''b'', ''c''] \<and>
   first_failure (list_query failing_base [(''max_results'', PyInt 100)]) =
     Some (HttpError ''503'') \<and>
   caught (HttpError ''503'') \<and>
   fst (get_all_apis (ServiceManagementServicesRepository_init failing_base) []) =
     Inl (ApiExecutionError '''' (HttpError ''503'') None)"
  using get_all_apis_spec [of "ServiceManagementServicesRepository_init working_base" "[]"]
        get_all_apis_spec [of "ServiceManagementServicesRepository_init failing_base" "[]"]
  by (simp add: Let_def get_all_apis_def services_list_def DEFAULT_MAX_RESULTS_def
      flatten_list_results_def dict_get_def working_base_def failing_base_def
      ServiceManagementServicesRepository_init_def)

section \<open>Name formatting\<close>

text \<open>
  Claim C5. \<open>get_formatted_project_name\<close> is a function on all strings. A name that does
  not start with \<open>project:\<close> gets that prefix, a name that starts with it is returned
  unchanged, and formatting twice is the same as formatting once.
\<close>

theorem get_formatted_project_name_spec:
  "(\<not> prefix ''project:'' x \<longrightarrow> get_formatted_project_name x = ''project:'' @ x) \<and>
   (prefix ''project:'' x \<longrightarrow> get_formatted_project_name x = x) \<and>
   get_formatted_project_name (get_formatted_project_name x) = get_formatted_project_name x"
  by (simp add: get_formatted_project_name_def)

theorem get_formatted_project_name_witness:
  "get_formatted_project_name ''p1'' = ''project:p1'' \<and>
   get_formatted_project_name ''project:p1'' = ''project:p1'' \<and>
   get_formatted_project_name (get_formatted_project_name ''p1'') = ''project:p1''"
  using get_formatted_project_name_spec [of "''p1''"]
        get_formatted_project_name_spec [of "''project:p1''"]
  by simp

text \<open>
  Claim C6. \<open>get_formatted_service_name\<close> is a function on all strings. A name that does
  not start with \<open>services/\<close> gets that prefix, a name that starts with it is returned
  unchanged, and formatting twice is the same as formatting once.
\<close>

theorem get_formatted_service_name_spec:
  "(\<not> prefix ''services/'' x \<longrightarrow> get_formatted_service_name x = ''services/'' @ x) \<and>
   (prefix ''services/'' x \<longrightarrow> get_formatted_service_name x = x) \<and>
   get_formatted_service_name (get_formatted_service_name x) = get_formatted_service_name x"
  by (simp add: get_formatted_service_name_def)

theorem get_formatted_service_name_witness:
  "get_formatted_service_name ''svcA'' = ''services/svcA'' \<and>
   get_formatted_service_name ''services/svcA'' = ''services/svcA'' \<and>
   get_formatted_service_name (get_formatted_service_name ''svcA'') = ''services/svcA''"
  using get_formatted_service_name_spec [of "''svcA''"]
        get_formatted_service_name_spec [of "''services/svcA''"]
  by simp

section \<open>Service configuration\<close>

text \<open>
  Claim C7, as stated, fails: \<open>get_config\<close> does not send \<open>configId\<close> whenever it is
  supplied. An empty string is supplied (it is not \<open>None\<close>), and the dispatched arguments
  hold \<open>serviceName\<close> only.
\<close>

theorem get_config_supplied_counterexample:
  "PyStr [] \<noteq> PyNone \<and>
   snd (get_config (ServiceManagementServicesRepository_init working_base)
          ''svcA'' (PyStr []) PyNone ''getConfig'' []) =
     [Execute_query_call ''getConfig'' [(''serviceName'', PyStr ''svcA'')]] \<and>
   spec_get_config_arguments ''svcA'' (PyStr []) PyNone =
     [(''serviceName'', PyStr ''svcA''), (''configId'', PyStr [])] \<and>
   snd (get_config (ServiceManagementServicesRepository_init working_base)
          ''svcA'' (PyStr []) PyNone ''getConfig'' []) \<noteq>
     [Execute_query_call ''getConfig''
        (spec_get_config_arguments ''svcA'' (PyStr []) PyNone)]"
  by (simp add: Let_def get_config_def execute_query_def spec_get_config_arguments_def
      ServiceManagementServicesRepository_init_def)

text \<open>
  Claim C7, amended. On the services sub-repository, \<open>get_config\<close> issues the named verb
  once, with the arguments \<open>serviceName\<close>, then \<open>configId\<close> when the supplied value is
  truthy, then \<open>view\<close> when the supplied value is truthy, and returns what the query
  returns. These are the arguments of the spec whenever each of the two is truthy or left
  out. \<open>get_full_api_configuration\<close> issues \<open>getConfig\<close> with \<open>serviceName\<close> alone and
  returns the resulting document unchanged.
\<close>

theorem get_config_truthy_arguments:
  "get_config (ServiceManagementServicesRepository_init b) resource config_id view verb log =
     (execute_query_raw b verb
        ([(''serviceName'', PyStr resource)]
         @ (if truthy config_id then [(''configId'', config_id)] else [])
         @ (if truthy view then [(''view'', view)] else [])),
      log @ [Execute_query_call verb
        ([(''serviceName'', PyStr resource)]
         @ (if truthy config_id then [(''configId'', config_id)] else [])
         @ (if truthy view then [(''view'', view)] else []))]) \<and>
   ((truthy config_id \<or> config_id = PyNone) \<and> (truthy view \<or> view = PyNone) \<longrightarrow>
      snd (get_config (ServiceManagementServicesRepository_init b)
             resource config_id view verb log) =
        log @ [Execute_query_call verb (spec_get_config_arguments resource config_id view)]) \<and>
   snd (get_full_api_configuration (ServiceManagementServicesRepository_init b)
          resource log) =
     log @ [Execute_query_call ''getConfig'' [(''serviceName'', PyStr resource)]] \<and>
   (\<forall>document.
      execute_query_raw b ''getConfig'' [(''serviceName'', PyStr resource)] = Inr document \<longrightarrow>
      fst (get_full_api_configuration (ServiceManagementServicesRepository_init b)
             resource log) = Inr document)"
  by (auto simp: Let_def get_config_def execute_query_def spec_get_config_arguments_def
      get_full_api_configuration_def ServiceManagementServicesRepository_init_def)

theorem get_config_truthy_arguments_witness:
  "get_config (ServiceManagementServicesRepository_init working_base)
     ''svcA'' (PyStr ''2024-01-01r0'') (PyStr ''FULL'') ''getConfig'' [] =
     (Inr ''document'',
      [Execute_query_call ''getConfig''
         [(''serviceName'', PyStr ''svcA''), (''configId'', PyStr ''2024-01-01r0''),
          (''view'', PyStr ''FULL'')]]) \<and>
   truthy (PyStr ''2024-01-01r0'') \<and> truthy (PyStr ''FULL'') \<and>
   spec_get_config_arguments ''svcA'' (PyStr ''2024-01-01r0'') (PyStr ''FULL'') =
     [(''serviceName'', PyStr ''svcA''), (''configId'', PyStr ''2024-01-01r0''),
      (''view'', PyStr ''FULL'')] \<and>
   snd (get_full_api_configuration (ServiceManagementServicesRepository_init working_base)
          ''svcA'' []) =
     [Execute_query_call ''getConfig'' [(''serviceName'', PyStr ''svcA'')]] \<and>
   execute_query_raw working_base ''getConfig'' [(''serviceName'', PyStr ''svcA'')] =
     Inr ''document'' \<and>
   fst (get_full_api_configuration (ServiceManagementServicesRepository_init working_base)
          ''svcA'' []) = Inr ''document''"
  using get_config_truthy_arguments
          [of working_base "''svcA''" "PyStr ''2024-01-01r0''" "PyStr ''FULL''"
              "''getConfig''" "[]"]
  by (simp add: spec_get_config_arguments_def working_base_def)

text \<open>
  Claim C10. A falsy \<open>config_id\<close> or \<open>view\<close> (an empty string, zero, \<open>False\<close>) is
  indistinguishable from \<open>None\<close>: the call and its result are the same. On the services
  sub-repository the dispatched arguments hold \<open>configId\<close> exactly when \<open>config_id\<close> is
  truthy, and \<open>view\<close> exactly when \<open>view\<close> is truthy.
\<close>

theorem get_config_falsy_dropped:
  "(\<not> truthy config_id \<longrightarrow>
      get_config s resource config_id view verb log =
      get_config s resource PyNone view verb log) \<and>
   (\<not> truthy view \<longrightarrow>
      get_config s resource config_id view verb log =
      get_config s resource config_id PyNone verb log) \<and>
   (\<exists>arguments.
      snd (get_config (ServiceManagementServicesRepository_init b)
             resource config_id view verb log) =
        log @ [Execute_query_call verb arguments] \<and>
      map_of arguments ''configId'' = (if truthy config_id then Some config_id else None) \<and>
      map_of arguments ''view'' = (if truthy view then Some view else None))"
  by (simp add: Let_def get_config_def execute_query_def ServiceManagementServicesRepository_init_def)

theorem get_config_falsy_dropped_witness:
  "\<not> truthy (PyStr []) \<and> \<not> truthy (PyInt 0) \<and>
   get_config (ServiceManagementServicesRepository_init working_base)
     ''svcA'' (PyStr []) (PyInt 0) ''getConfig'' [] =
   get_config (ServiceManagementServicesRepository_init working_base)
     ''svcA'' PyNone PyNone ''getConfig'' [] \<and>
   snd (get_config (ServiceManagementServicesRepository_init working_base)
          ''svcA'' (PyStr []) (PyInt 0) ''getConfig'' []) =
     [Execute_query_call ''getConfig'' [(''serviceName'', PyStr ''svcA'')]]"
  using get_config_falsy_dropped
          [where config_id = "PyStr []" and view = "PyInt 0" and resource = "''svcA''"
             and s = "ServiceManagementServicesRepository_init working_base"
             and verb = "''getConfig''" and log = "[]" and b = working_base]
        get_config_falsy_dropped
          [where config_id = PyNone and view = "PyInt 0" and resource = "''svcA''"
             and s = "ServiceManagementServicesRepository_init working_base"
             and verb = "''getConfig''" and log = "[]" and b = working_base]
  by (simp add: Let_def get_config_def execute_query_def ServiceManagementServicesRepository_init_def)

section \<open>Rate limiter flag of the repository client\<close>

text \<open>
  Claim C9. When \<open>quota_max_calls\<close> is absent (\<open>None\<close>) or zero, the constructor passes
  \<open>use_rate_limiter = False\<close> to the base class whatever the caller supplied; when it is a
  positive integer, the caller's value is passed unchanged.
\<close>

theorem rate_limiter_forced_off:
  "((q = PyNone \<or> q = PyInt 0) \<longrightarrow>
      use_rate_limiter (ServiceManagementRepositoryClient_init q period u cd c) = False) \<and>
   (0 < n \<longrightarrow>
      use_rate_limiter (ServiceManagementRepositoryClient_init (PyInt n) period u cd c) = u)"
  by (auto simp: ServiceManagementRepositoryClient_init_def)

theorem rate_limiter_forced_off_witness:
  "use_rate_limiter
     (ServiceManagementRepositoryClient_init PyNone (100::nat) True False ()) = False \<and>
   use_rate_limiter
     (ServiceManagementRepositoryClient_init (PyInt 0) (100::nat) True False ()) = False \<and>
   (0::int) < 5 \<and>
   use_rate_limiter
     (ServiceManagementRepositoryClient_init (PyInt 5) (100::nat) True False ()) = True \<and>
   use_rate_limiter
     (ServiceManagementRepositoryClient_init (PyInt 5) (100::nat) False False ()) = False"
  using rate_limiter_forced_off
          [where q = PyNone and n = 5 and period = "100::nat" and u = True and cd = False
             and c = "()"]
        rate_limiter_forced_off
          [where q = "PyInt 0" and n = 5 and period = "100::nat" and u = False and cd = False
             and c = "()"]
  by (simp add: ServiceManagementRepositoryClient_init_def)

end
